theory Spec2Isabelle
  imports Main "HOL-Library.Word" "HOL-Library.Code_Target_Numeral"
begin

unbundle bit_operations_syntax

section \<open>Data model of gemini.go\<close>

text \<open>
  Go strings and byte slices are sequences of bytes; both are \<open>char list\<close> here (a
  \<open>char\<close> is one byte). \<open>int64\<close> is a 64-bit word read as two's complement, so that
  \<open>ga.Nonce++\<close> wraps as it does in Go. A \<open>float64\<close> is kept as its IEEE 754 bit pattern.
\<close>

type_synonym bytes = string
type_synonym int64 = "64 word"
type_synonym float64 = "64 word"

record Ticker =
  Bid :: float64
  Ask :: float64
  Last :: float64

record Fund =
  Type :: string
  Currency :: string
  Amount :: float64
  Available :: float64
  AvailableForWithdrawal :: float64

record Order =
  OrderId :: string
  ClientId :: string
  Symbol :: string
  Price :: float64
  AvgExecPrice :: float64
  Side :: string
  Type :: string
  Timestamp :: int64
  TimestampMs :: int64
  Live :: bool
  Cancelled :: bool
  ExecutedAmount :: float64
  RemainingAmount :: float64
  OrigAmount :: float64

record BaseRequest =
  Request :: string
  Nonce :: int64

text \<open>\<open>OrderPlaceReq\<close> embeds \<open>BaseRequest\<close>: its fields are promoted, as in Go.\<close>

record OrderPlaceReq = BaseRequest +
  Symbol :: string
  Amount :: string
  Price :: string
  Side :: string
  Type :: string
  ClientId :: string

record GeminiAPI =
  BaseURL :: string
  ApiKey :: string
  ApiSecret :: string
  Nonce :: int64

text \<open>
  The interface \<open>Request\<close> has two implementations in the package, both used through a
  pointer: \<open>*BaseRequest\<close> and \<open>*OrderPlaceReq\<close>.
\<close>

datatype Request = PtrBaseRequest BaseRequest | PtrOrderPlaceReq OrderPlaceReq

definition NewBaseRequest :: "string \<Rightarrow> BaseRequest" where
  "NewBaseRequest route = \<lparr>Request = route, Nonce = 0\<rparr>"

fun SetNonce :: "int64 \<Rightarrow> Request \<Rightarrow> Request" where
  "SetNonce n (PtrBaseRequest r) = PtrBaseRequest (r\<lparr>BaseRequest.Nonce := n\<rparr>)"
| "SetNonce n (PtrOrderPlaceReq r) = PtrOrderPlaceReq (r\<lparr>BaseRequest.Nonce := n\<rparr>)"

fun GetRoute :: "Request \<Rightarrow> string" where
  "GetRoute (PtrBaseRequest r) = Request r"
| "GetRoute (PtrOrderPlaceReq r) = Request r"

text \<open>The nonce field of a request, whichever implementation it is.\<close>

fun GetNonce :: "Request \<Rightarrow> int64" where
  "GetNonce (PtrBaseRequest r) = BaseRequest.Nonce r"
| "GetNonce (PtrOrderPlaceReq r) = BaseRequest.Nonce r"

section \<open>encoding/hex and encoding/base64\<close>

definition hextable :: string where
  "hextable = ''0123456789abcdef''"

definition hex_EncodeToString :: "bytes \<Rightarrow> string" where
  "hex_EncodeToString src =
     concat (map (\<lambda>c. [hextable ! (of_char c div 16), hextable ! (of_char c mod 16)]) src)"

definition encodeStd :: string where
  "encodeStd = ''ABCDEFGHIJKLMNOPQRSTUVWXYZabcdefghijklmnopqrstuvwxyz0123456789+/''"

text \<open>
  \<open>base64.StdEncoding.EncodeToString\<close>: three source bytes give four characters of the
  standard alphabet; a last block of one or two bytes is padded with \<open>=\<close>.
\<close>

fun base64_EncodeToString :: "bytes \<Rightarrow> string" where
  "base64_EncodeToString (a # b # c # src) =
     (let val = of_char a * 65536 + of_char b * 256 + of_char c :: nat in
      [encodeStd ! (val div 262144 mod 64), encodeStd ! (val div 4096 mod 64),
       encodeStd ! (val div 64 mod 64), encodeStd ! (val mod 64)]
      @ base64_EncodeToString src)"
| "base64_EncodeToString [a, b] =
     (let val = of_char a * 65536 + of_char b * 256 :: nat in
      [encodeStd ! (val div 262144 mod 64), encodeStd ! (val div 4096 mod 64),
       encodeStd ! (val div 64 mod 64), CHR ''=''])"
| "base64_EncodeToString [a] =
     (let val = of_char a * 65536 :: nat in
      [encodeStd ! (val div 262144 mod 64), encodeStd ! (val div 4096 mod 64),
       CHR ''='', CHR ''=''])"
| "base64_EncodeToString [] = []"

section \<open>encoding/json: Marshal of the two request structs\<close>

text \<open>\<open>strconv.AppendInt(b, v, 10)\<close>: the decimal digits, with a minus sign below zero.\<close>

definition digits :: string where
  "digits = ''0123456789''"

fun FormatUint :: "nat \<Rightarrow> string" where
  "FormatUint n =
     (if n < 10 then [digits ! n] else FormatUint (n div 10) @ [digits ! (n mod 10)])"

declare FormatUint.simps [simp del]

definition FormatInt :: "int64 \<Rightarrow> string" where
  "FormatInt v = (if sint v < 0 then ''-'' @ FormatUint (nat (- sint v)) else FormatUint (nat (sint v)))"

text \<open>
  \<open>utf8.DecodeRuneInString\<close>, as far as the encoder needs it: the length of the
  well-formed UTF-8 sequence at the head of the input, or 0 where the decoder answers
  \<open>(RuneError, 1)\<close>. The head byte is not ASCII.
\<close>

definition byte_in :: "nat \<Rightarrow> nat \<Rightarrow> char \<Rightarrow> bool" where
  "byte_in lo hi c = (lo \<le> of_char c \<and> (of_char c :: nat) \<le> hi)"

definition utf8_first :: "char \<Rightarrow> nat \<times> nat \<times> nat" where
  "utf8_first c =
     (if byte_in 0xC2 0xDF c then (2, 0x80, 0xBF)
      else if byte_in 0xE0 0xE0 c then (3, 0xA0, 0xBF)
      else if byte_in 0xE1 0xEC c then (3, 0x80, 0xBF)
      else if byte_in 0xED 0xED c then (3, 0x80, 0x9F)
      else if byte_in 0xEE 0xEF c then (3, 0x80, 0xBF)
      else if byte_in 0xF0 0xF0 c then (4, 0x90, 0xBF)
      else if byte_in 0xF1 0xF3 c then (4, 0x80, 0xBF)
      else if byte_in 0xF4 0xF4 c then (4, 0x80, 0x8F)
      else (0, 0, 0))"

definition utf8_size :: "bytes \<Rightarrow> nat" where
  "utf8_size s =
     (case s of [] \<Rightarrow> 0
      | c # _ \<Rightarrow>
        (case utf8_first c of (sz, lo, hi) \<Rightarrow>
          if sz = 0 \<or> length s < sz then 0
          else if \<not> byte_in lo hi (s ! 1) then 0
          else if sz = 2 then 2
          else if \<not> byte_in 0x80 0xBF (s ! 2) then 0
          else if sz = 3 then 3
          else if \<not> byte_in 0x80 0xBF (s ! 3) then 0
          else 4))"

text \<open>
  The encoder's string escaping with HTML escaping on (the default of \<open>json.Marshal\<close>):
  the quote and the backslash get a backslash; backspace, form feed, newline, carriage
  return and tab their short escapes; every other control character and \<open><\<close>, \<open>>\<close>,
  \<open>&\<close> are written \<open>\u00XX\<close>.
\<close>

definition escape_ascii :: "char \<Rightarrow> string" where
  "escape_ascii c =
     (if c = CHR 0x22 \<or> c = CHR 0x5C then [CHR 0x5C, c]
      else if c = CHR 0x08 then [CHR 0x5C, CHR ''b'']
      else if c = CHR 0x0C then [CHR 0x5C, CHR ''f'']
      else if c = CHR 0x0A then [CHR 0x5C, CHR ''n'']
      else if c = CHR 0x0D then [CHR 0x5C, CHR ''r'']
      else if c = CHR 0x09 then [CHR 0x5C, CHR ''t'']
      else if (of_char c :: nat) < 0x20 \<or> c = CHR ''<'' \<or> c = CHR ''>'' \<or> c = CHR ''&''
        then [CHR 0x5C, CHR ''u'', CHR ''0'', CHR ''0'',
              hextable ! (of_char c div 16), hextable ! (of_char c mod 16)]
      else [c])"

text \<open>
  Bytes that are not ASCII: an ill-formed sequence is replaced, one byte at a time, by
  the escape of U+FFFD; the line and paragraph separators U+2028 and U+2029 are escaped;
  any other well-formed sequence is copied.
\<close>

fun escape_string :: "bytes \<Rightarrow> string" where
  "escape_string [] = []"
| "escape_string (c # cs) =
     (if (of_char c :: nat) < 0x80 then escape_ascii c @ escape_string cs
      else if utf8_size (c # cs) = 0
        then [CHR 0x5C, CHR ''u'', CHR ''f'', CHR ''f'', CHR ''f'', CHR ''d''] @ escape_string cs
      else if take 3 (c # cs) = [CHR 0xE2, CHR 0x80, CHR 0xA8]
        then [CHR 0x5C, CHR ''u'', CHR ''2'', CHR ''0'', CHR ''2'', CHR ''8'']
             @ escape_string (drop 2 cs)
      else if take 3 (c # cs) = [CHR 0xE2, CHR 0x80, CHR 0xA9]
        then [CHR 0x5C, CHR ''u'', CHR ''2'', CHR ''0'', CHR ''2'', CHR ''9'']
             @ escape_string (drop 2 cs)
      else take (utf8_size (c # cs)) (c # cs) @ escape_string (drop (utf8_size (c # cs) - 1) cs))"

definition json_string :: "string \<Rightarrow> string" where
  "json_string s = [CHR 0x22] @ escape_string s @ [CHR 0x22]"

text \<open>
  \<open>json.Marshal\<close> of a \<open>*BaseRequest\<close> and of a \<open>*OrderPlaceReq\<close>: the fields in
  declaration order under their tags, the embedded struct's fields first.
\<close>

definition Marshal_BaseRequest :: "BaseRequest \<Rightarrow> bytes" where
  "Marshal_BaseRequest r =
     ''{\"request\":'' @ json_string (Request r)
     @ '',\"nonce\":'' @ FormatInt (BaseRequest.Nonce r) @ ''}''"

definition Marshal_OrderPlaceReq :: "OrderPlaceReq \<Rightarrow> bytes" where
  "Marshal_OrderPlaceReq r =
     ''{\"request\":'' @ json_string (Request r)
     @ '',\"nonce\":'' @ FormatInt (BaseRequest.Nonce r)
     @ '',\"symbol\":'' @ json_string (OrderPlaceReq.Symbol r)
     @ '',\"amount\":'' @ json_string (OrderPlaceReq.Amount r)
     @ '',\"price\":'' @ json_string (OrderPlaceReq.Price r)
     @ '',\"side\":'' @ json_string (OrderPlaceReq.Side r)
     @ '',\"type\":'' @ json_string (OrderPlaceReq.Type r)
     @ '',\"client_order_id\":'' @ json_string (OrderPlaceReq.ClientId r) @ ''}''"

fun GetPayload :: "Request \<Rightarrow> bytes" where
  "GetPayload (PtrBaseRequest r) = Marshal_BaseRequest r"
| "GetPayload (PtrOrderPlaceReq r) = Marshal_OrderPlaceReq r"

section \<open>fmt: the verbs used by the package\<close>

text \<open>
  \<open>fmt.Sprintf("%0.6f", x)\<close> and its siblings. A finite \<open>float64\<close> is
  \<open>\<plusminus> float_mant * 2 ^ float_exp\<close>; \<open>strconv\<close> prints its exact decimal expansion rounded
  to the precision, ties to even. Not-a-number and the infinities print as words. The
  flag \<open>0\<close> pads to a width, and the format gives none.
\<close>

definition float_neg :: "float64 \<Rightarrow> bool" where
  "float_neg x = bit x 63"

definition float_biased :: "float64 \<Rightarrow> nat" where
  "float_biased x = unat (drop_bit 52 x AND 0x7FF)"

definition float_frac :: "float64 \<Rightarrow> nat" where
  "float_frac x = unat (x AND 0xFFFFFFFFFFFFF)"

definition IsNaN :: "float64 \<Rightarrow> bool" where
  "IsNaN x = (float_biased x = 0x7FF \<and> float_frac x \<noteq> 0)"

definition IsInf :: "float64 \<Rightarrow> bool" where
  "IsInf x = (float_biased x = 0x7FF \<and> float_frac x = 0)"

definition float_mant :: "float64 \<Rightarrow> nat" where
  "float_mant x = (if float_biased x = 0 then float_frac x else 2 ^ 52 + float_frac x)"

definition float_exp :: "float64 \<Rightarrow> int" where
  "float_exp x = (if float_biased x = 0 then - 1074 else int (float_biased x) - 1075)"

definition round_half_even :: "nat \<Rightarrow> nat \<Rightarrow> nat" where
  "round_half_even n d =
     (if 2 * (n mod d) > d \<or> (2 * (n mod d) = d \<and> odd (n div d)) then n div d + 1 else n div d)"

text \<open>The magnitude of \<open>x\<close> in units of \<open>10 ^ - prec\<close>, rounded.\<close>

definition float_scaled :: "nat \<Rightarrow> float64 \<Rightarrow> nat" where
  "float_scaled prec x =
     (if 0 \<le> float_exp x then float_mant x * 2 ^ nat (float_exp x) * 10 ^ prec
      else round_half_even (float_mant x * 10 ^ prec) (2 ^ nat (- float_exp x)))"

text \<open>The last \<open>prec\<close> decimal digits of \<open>n\<close>, zeros in front where it has fewer.\<close>

primrec frac_digits :: "nat \<Rightarrow> nat \<Rightarrow> string" where
  "frac_digits 0 n = []"
| "frac_digits (Suc prec) n = frac_digits prec (n div 10) @ [digits ! (n mod 10)]"

definition FormatFloat_f :: "nat \<Rightarrow> float64 \<Rightarrow> string" where
  "FormatFloat_f prec x =
     (if float_neg x then ''-'' else [])
     @ FormatUint (float_scaled prec x div 10 ^ prec)
     @ (if 0 < prec then ''.'' @ frac_digits prec (float_scaled prec x mod 10 ^ prec) else [])"

definition Sprintf_f :: "nat \<Rightarrow> float64 \<Rightarrow> string" where
  "Sprintf_f prec x =
     (if IsNaN x then ''NaN''
      else if IsInf x then (if float_neg x then ''-Inf'' else ''+Inf'')
      else FormatFloat_f prec x)"

section \<open>crypto/sha512 and crypto/hmac\<close>

text \<open>SHA-384 as FIPS 180-4 defines it: SHA-512's compression under its own initial value,
  the first six words of the state as the digest.\<close>

definition K512 :: "64 word list" where
  "K512 = [
    0x428A2F98D728AE22, 0x7137449123EF65CD, 0xB5C0FBCFEC4D3B2F, 0xE9B5DBA58189DBBC,
    0x3956C25BF348B538, 0x59F111F1B605D019, 0x923F82A4AF194F9B, 0xAB1C5ED5DA6D8118,
    0xD807AA98A3030242, 0x12835B0145706FBE, 0x243185BE4EE4B28C, 0x550C7DC3D5FFB4E2,
    0x72BE5D74F27B896F, 0x80DEB1FE3B1696B1, 0x9BDC06A725C71235, 0xC19BF174CF692694,
    0xE49B69C19EF14AD2, 0xEFBE4786384F25E3, 0x0FC19DC68B8CD5B5, 0x240CA1CC77AC9C65,
    0x2DE92C6F592B0275, 0x4A7484AA6EA6E483, 0x5CB0A9DCBD41FBD4, 0x76F988DA831153B5,
    0x983E5152EE66DFAB, 0xA831C66D2DB43210, 0xB00327C898FB213F, 0xBF597FC7BEEF0EE4,
    0xC6E00BF33DA88FC2, 0xD5A79147930AA725, 0x06CA6351E003826F, 0x142929670A0E6E70,
    0x27B70A8546D22FFC, 0x2E1B21385C26C926, 0x4D2C6DFC5AC42AED, 0x53380D139D95B3DF,
    0x650A73548BAF63DE, 0x766A0ABB3C77B2A8, 0x81C2C92E47EDAEE6, 0x92722C851482353B,
    0xA2BFE8A14CF10364, 0xA81A664BBC423001, 0xC24B8B70D0F89791, 0xC76C51A30654BE30,
    0xD192E819D6EF5218, 0xD69906245565A910, 0xF40E35855771202A, 0x106AA07032BBD1B8,
    0x19A4C116B8D2D0C8, 0x1E376C085141AB53, 0x2748774CDF8EEB99, 0x34B0BCB5E19B48A8,
    0x391C0CB3C5C95A63, 0x4ED8AA4AE3418ACB, 0x5B9CCA4F7763E373, 0x682E6FF3D6B2B8A3,
    0x748F82EE5DEFB2FC, 0x78A5636F43172F60, 0x84C87814A1F0AB72, 0x8CC702081A6439EC,
    0x90BEFFFA23631E28, 0xA4506CEBDE82BDE9, 0xBEF9A3F7B2C67915, 0xC67178F2E372532B,
    0xCA273ECEEA26619C, 0xD186B8C721C0C207, 0xEADA7DD6CDE0EB1E, 0xF57D4F7FEE6ED178,
    0x06F067AA72176FBA, 0x0A637DC5A2C898A6, 0x113F9804BEF90DAE, 0x1B710B35131C471B,
    0x28DB77F523047D84, 0x32CAAB7B40C72493, 0x3C9EBE0A15C9BEBC, 0x431D67C49C100D4C,
    0x4CC5D4BECB3E42B6, 0x597F299CFC657E2A, 0x5FCB6FAB3AD6FAEC, 0x6C44198C4A475817]"

type_synonym sha_state =
  "64 word \<times> 64 word \<times> 64 word \<times> 64 word \<times> 64 word \<times> 64 word \<times> 64 word \<times> 64 word"

definition init384 :: sha_state where
  "init384 =
     (0xCBBB9D5DC1059ED8, 0x629A292A367CD507, 0x9159015A3070DD17, 0x152FECD8F70E5939,
      0x67332667FFC00B31, 0x8EB44A8768581511, 0xDB0C2E0D64F98FA7, 0x47B5481DBEFA4FA4)"

definition be_word :: "bytes \<Rightarrow> 64 word" where
  "be_word bs = foldl (\<lambda>w c. push_bit 8 w OR of_nat (of_char c)) 0 bs"

primrec be_bytes :: "nat \<Rightarrow> nat \<Rightarrow> bytes" where
  "be_bytes 0 x = []"
| "be_bytes (Suc n) x = be_bytes n (x div 256) @ [char_of x]"

definition sha_pad :: "bytes \<Rightarrow> bytes" where
  "sha_pad m =
     m @ [CHR 0x80] @ replicate ((239 - length m mod 128) mod 128) (CHR 0x00)
     @ be_bytes 16 (8 * length m)"

definition sha_blocks :: "bytes \<Rightarrow> 64 word list list" where
  "sha_blocks p =
     map (\<lambda>i. map (\<lambda>j. be_word (take 8 (drop (128 * i + 8 * j) p))) [0..<16])
       [0..<length p div 128]"

definition ssig0 :: "64 word \<Rightarrow> 64 word" where
  "ssig0 x = word_rotr 1 x XOR word_rotr 8 x XOR drop_bit 7 x"

definition ssig1 :: "64 word \<Rightarrow> 64 word" where
  "ssig1 x = word_rotr 19 x XOR word_rotr 61 x XOR drop_bit 6 x"

definition bsig0 :: "64 word \<Rightarrow> 64 word" where
  "bsig0 x = word_rotr 28 x XOR word_rotr 34 x XOR word_rotr 39 x"

definition bsig1 :: "64 word \<Rightarrow> 64 word" where
  "bsig1 x = word_rotr 14 x XOR word_rotr 18 x XOR word_rotr 41 x"

fun sha_schedule :: "nat \<Rightarrow> 64 word list \<Rightarrow> 64 word list" where
  "sha_schedule 0 w = w"
| "sha_schedule (Suc n) w =
     (let t = length w in
      sha_schedule n
        (w @ [ssig1 (w ! (t - 2)) + w ! (t - 7) + ssig0 (w ! (t - 15)) + w ! (t - 16)]))"

definition sha_round :: "64 word \<times> 64 word \<Rightarrow> sha_state \<Rightarrow> sha_state" where
  "sha_round kw s =
     (case (kw, s) of ((k, w), (a, b, c, d, e, f, g, h)) \<Rightarrow>
       (let t1 = h + bsig1 e + ((e AND f) XOR (NOT e AND g)) + k + w;
            t2 = bsig0 a + ((a AND b) XOR (a AND c) XOR (b AND c))
        in (t1 + t2, a, b, c, d + t1, e, f, g)))"

definition sha_add :: "sha_state \<Rightarrow> sha_state \<Rightarrow> sha_state" where
  "sha_add s t =
     (case (s, t) of ((a, b, c, d, e, f, g, h), (a', b', c', d', e', f', g', h')) \<Rightarrow>
       (a + a', b + b', c + c', d + d', e + e', f + f', g + g', h + h'))"

definition sha_block :: "64 word list \<Rightarrow> sha_state \<Rightarrow> sha_state" where
  "sha_block blk h = sha_add h (fold sha_round (zip K512 (sha_schedule 64 blk)) h)"

definition sha384_digest :: "sha_state \<Rightarrow> bytes" where
  "sha384_digest s =
     (case s of (a, b, c, d, e, f, g, h) \<Rightarrow>
        concat (map (\<lambda>w. be_bytes 8 (unat w)) [a, b, c, d, e, f]))"

definition Sum384 :: "bytes \<Rightarrow> bytes" where
  "Sum384 m = sha384_digest (fold sha_block (sha_blocks (sha_pad m)) init384)"

text \<open>
  \<open>hmac.New(sha512.New384, key)\<close>, \<open>Write(msg)\<close>, \<open>Sum(nil)\<close>: a key longer than the
  block of 128 bytes is hashed first; the key is then filled with zero bytes to the block
  size and combined with the inner and the outer pad.
\<close>

definition hmac_key :: "bytes \<Rightarrow> bytes" where
  "hmac_key key =
     (let k = (if 128 < length key then Sum384 key else key)
      in k @ replicate (128 - length k) (CHR 0x00))"

definition xor_pad :: "8 word \<Rightarrow> bytes \<Rightarrow> bytes" where
  "xor_pad p k = map (\<lambda>c. char_of (unat ((of_nat (of_char c) :: 8 word) XOR p))) k"

definition hmac_Sum384 :: "bytes \<Rightarrow> bytes \<Rightarrow> bytes" where
  "hmac_Sum384 key msg =
     Sum384 (xor_pad 0x5c (hmac_key key) @ Sum384 (xor_pad 0x36 (hmac_key key) @ msg))"

section \<open>net/http, and what lies outside the package\<close>

text \<open>
  A request as \<open>http.NewRequest\<close> builds it. \<open>Header\<close> lists the fields in the order
  of the \<open>Header.Add\<close> calls, under the names the source passes (HTTP does not
  distinguish the case of a header name). A \<open>nil\<close> body is \<open>None\<close>.
\<close>

record http_Request =
  Method :: string
  URL :: string
  Header :: "(string \<times> string) list"
  Body :: "bytes option"

text \<open>A response: the code never reads the status; \<open>ReadAll\<close> is what
  \<open>ioutil.ReadAll(resp.Body)\<close> gives, an error message or the bytes of the body.\<close>

record http_Response =
  StatusCode :: int
  ReadAll :: "string + bytes"

text \<open>
  What the package cannot decide is a parameter of every operation: which URLs
  \<open>net/url\<close> refuses (\<open>url_Parse\<close> gives the error message), what the transport answers to
  a request (\<open>Do\<close>: an error message or a response), and what \<open>json.Unmarshal\<close> makes of a
  body for each of the four target types (the value left in the target, and the error
  message if it fails).
\<close>

record world =
  url_Parse :: "string \<Rightarrow> string option"
  Do :: "http_Request \<Rightarrow> string + http_Response"
  Unmarshal_Ticker :: "bytes \<Rightarrow> Ticker \<times> string option"
  Unmarshal_Funds :: "bytes \<Rightarrow> Fund list \<times> string option"
  Unmarshal_Orders :: "bytes \<Rightarrow> Order list \<times> string option"
  Unmarshal_Order :: "bytes \<Rightarrow> Order \<times> string option"

text \<open>Go's \<open>error\<close> values, by the library call that returned them.\<close>

datatype error = url_Error string | read_Error string | json_Error string

text \<open>
  The spec's names for them: a failure of \<open>net/http\<close> or of reading the body is a
  TransportError, a failure of \<open>json.Unmarshal\<close> a DecodeError.
\<close>

fun is_TransportError :: "error \<Rightarrow> bool" where
  "is_TransportError (url_Error _) = True"
| "is_TransportError (read_Error _) = True"
| "is_TransportError (json_Error _) = False"

fun is_DecodeError :: "error \<Rightarrow> bool" where
  "is_DecodeError (json_Error _) = True"
| "is_DecodeError _ = False"

text \<open>
  What a call does besides returning: the dispatcher it leaves behind (\<open>ga\<close> is a
  pointer), the requests it handed to the transport through \<open>client.Do\<close> or
  \<open>http.Get\<close> (one for each call of these: a redirect that the client follows on its
  own is part of the answer of \<open>Do\<close>), and the lines it gave to \<open>logger.Printf\<close>. \<open>result\<close> is the tuple the Go function returns.
  \<open>AuthAPIReq\<close> also writes to the request it was given.
\<close>

record 'r effect =
  ga_out :: GeminiAPI
  sent :: "http_Request list"
  logged :: "string list"
  result :: 'r

record 'r auth_effect = "'r effect" +
  r_out :: Request

text \<open>A function that can panic either panics with a message or returns.\<close>

datatype 'a outcome = panic string | returns 'a

definition NewRequest :: "world \<Rightarrow> string \<Rightarrow> string \<Rightarrow> string + http_Request" where
  "NewRequest w meth url =
     (case url_Parse w url of
        Some e \<Rightarrow> Inl e
      | None \<Rightarrow> Inr \<lparr>Method = meth, URL = url, Header = [], Body = None\<rparr>)"

definition Header_Add :: "string \<Rightarrow> string \<Rightarrow> http_Request \<Rightarrow> http_Request" where
  "Header_Add key val req = req\<lparr>Header := Header req @ [(key, val)]\<rparr>"

definition Header_Get :: "string \<Rightarrow> http_Request \<Rightarrow> string option" where
  "Header_Get key req = map_of (Header req) key"

section \<open>The dispatcher\<close>

definition NewGeminiAPI :: "int64 \<Rightarrow> string \<Rightarrow> string \<Rightarrow> string \<Rightarrow> GeminiAPI" where
  \<comment> \<open>the first argument is \<open>time.Now().UnixNano()\<close>\<close>
  "NewGeminiAPI now baseurl apikey apisecret =
     \<lparr>BaseURL = baseurl, ApiKey = apikey, ApiSecret = apisecret, Nonce = now\<rparr>"

definition AuthAPIReq ::
  "world \<Rightarrow> GeminiAPI \<Rightarrow> Request \<Rightarrow> (bytes \<times> error option) auth_effect" where
  "AuthAPIReq w ga r =
     (let r1 = SetNonce (GeminiAPI.Nonce ga) r;
          ga1 = ga\<lparr>GeminiAPI.Nonce := GeminiAPI.Nonce ga + 1\<rparr>
      in case NewRequest w ''POST'' (BaseURL ga1 @ GetRoute r1) of
        Inl e \<Rightarrow>
          \<lparr>ga_out = ga1, sent = [],
           logged = [''ERROR: Failed to POST authenticated request to: '' @ GetRoute r1 @ [CHR 0x0A]],
           result = ([], None), r_out = r1\<rparr>
      | Inr req0 \<Rightarrow>
          (let base64Payload = base64_EncodeToString (GetPayload r1);
               sig = hmac_Sum384 (ApiSecret ga1) base64Payload;
               req = Header_Add ''X-GEMINI-SIGNATURE'' (hex_EncodeToString sig)
                       (Header_Add ''X-GEMINI-PAYLOAD'' base64Payload
                         (Header_Add ''X-GEMINI-APIKEY'' (ApiKey ga1) req0))
           in case Do w req of
             Inl e \<Rightarrow>
               \<lparr>ga_out = ga1, sent = [req],
                logged = [''ERROR: failed to POST authenticated request: '' @ GetRoute r1 @ [CHR 0x0A]],
                result = ([], None), r_out = r1\<rparr>
           | Inr resp \<Rightarrow>
               (case ReadAll resp of
                  Inl e \<Rightarrow>
                    \<lparr>ga_out = ga1, sent = [req],
                     logged = [''ERROR: failed to read response body'' @ [CHR 0x0A]],
                     result = ([], None), r_out = r1\<rparr>
                | Inr body \<Rightarrow>
                    \<lparr>ga_out = ga1, sent = [req], logged = [],
                     result = (body, None), r_out = r1\<rparr>)))"

definition zero_Ticker :: Ticker where
  "zero_Ticker = \<lparr>Bid = 0, Ask = 0, Last = 0\<rparr>"

definition zero_Order :: Order where
  "zero_Order =
     \<lparr>OrderId = [], ClientId = [], Symbol = [], Price = 0, AvgExecPrice = 0, Side = [],
      Type = [], Timestamp = 0, TimestampMs = 0, Live = False, Cancelled = False,
      ExecutedAmount = 0, RemainingAmount = 0, OrigAmount = 0\<rparr>"

definition GetTicker :: "world \<Rightarrow> GeminiAPI \<Rightarrow> string \<Rightarrow> (Ticker \<times> error option) effect" where
  "GetTicker w ga pair =
     (let tickerUrl = ''/v1/pubticker/'' @ pair;
          failed = ''ERROR: Failed to get ticker for pair '' @ pair @ [CHR 0x0A]
      in case NewRequest w ''GET'' (BaseURL ga @ tickerUrl) of
        Inl e \<Rightarrow>
          \<lparr>ga_out = ga, sent = [], logged = [failed],
           result = (zero_Ticker, Some (url_Error e))\<rparr>
      | Inr req \<Rightarrow>
          (case Do w req of
             Inl e \<Rightarrow>
               \<lparr>ga_out = ga, sent = [req], logged = [failed],
                result = (zero_Ticker, Some (url_Error e))\<rparr>
           | Inr resp \<Rightarrow>
               (case ReadAll resp of
                  Inl e \<Rightarrow>
                    \<lparr>ga_out = ga, sent = [req],
                     logged = [''ERROR: Failed to read ticker from response'' @ [CHR 0x0A]],
                     result = (zero_Ticker, Some (read_Error e))\<rparr>
                | Inr body \<Rightarrow>
                    (case Unmarshal_Ticker w body of
                       (ticker, Some e) \<Rightarrow>
                         \<lparr>ga_out = ga, sent = [req],
                          logged = [''ERROR: Failed to decode ticker from response'' @ [CHR 0x0A]],
                          result = (ticker, Some (json_Error e))\<rparr>
                     | (ticker, None) \<Rightarrow>
                         \<lparr>ga_out = ga, sent = [req], logged = [],
                          result = (ticker, None)\<rparr>))))"

definition GetFunds :: "world \<Rightarrow> GeminiAPI \<Rightarrow> (Fund list \<times> error option) effect" where
  "GetFunds w ga =
     (let a = AuthAPIReq w ga (PtrBaseRequest (NewBaseRequest ''/v1/balances''))
      in case result a of
        (body, Some e) \<Rightarrow>
          \<lparr>ga_out = ga_out a, sent = sent a,
           logged = logged a @ [''ERROR: Failed to get Funds'' @ [CHR 0x0A]],
           result = ([], Some e)\<rparr>
      | (body, None) \<Rightarrow>
          (case Unmarshal_Funds w body of
             (funds, Some e) \<Rightarrow>
               \<lparr>ga_out = ga_out a, sent = sent a,
                logged = logged a @ [''ERROR: Failed to get Funds'' @ [CHR 0x0A]],
                result = ([], Some (json_Error e))\<rparr>
           | (funds, None) \<Rightarrow>
               \<lparr>ga_out = ga_out a, sent = sent a, logged = logged a,
                result = (funds, None)\<rparr>))"

definition GetOrderStatus :: "world \<Rightarrow> GeminiAPI \<Rightarrow> (Order list \<times> error option) effect" where
  "GetOrderStatus w ga =
     (let a = AuthAPIReq w ga (PtrBaseRequest (NewBaseRequest ''/v1/orders''))
      in case result a of
        (body, Some e) \<Rightarrow>
          \<lparr>ga_out = ga_out a, sent = sent a,
           logged = logged a @ [''ERROR: Failed to get order status'' @ [CHR 0x0A]],
           result = ([], Some e)\<rparr>
      | (body, None) \<Rightarrow>
          (case Unmarshal_Orders w body of
             (orders, Some e) \<Rightarrow>
               \<lparr>ga_out = ga_out a, sent = sent a,
                logged = logged a @ [''ERROR: Failed to decode order status json'' @ [CHR 0x0A]],
                result = ([], Some (json_Error e))\<rparr>
           | (orders, None) \<Rightarrow>
               \<lparr>ga_out = ga_out a, sent = sent a, logged = logged a,
                result = (orders, None)\<rparr>))"

definition CancelAll :: "world \<Rightarrow> GeminiAPI \<Rightarrow> unit effect" where
  "CancelAll w ga =
     (let a = AuthAPIReq w ga (PtrBaseRequest (NewBaseRequest ''/v1/order/cancel/session''))
      in \<lparr>ga_out = ga_out a, sent = sent a, logged = logged a, result = ()\<rparr>)"

text \<open>
  \<open>PlaceLimitOrder\<close>: the price is formatted by the ticker, and a ticker outside the
  three known ones panics before the request is built.
\<close>

definition PlaceLimitOrder ::
  "world \<Rightarrow> GeminiAPI \<Rightarrow> string \<Rightarrow> string \<Rightarrow> string \<Rightarrow> float64 \<Rightarrow> float64
     \<Rightarrow> (Order \<times> error option) outcome effect" where
  "PlaceLimitOrder w ga direction ticker client_id amount price =
     (let amountStr = Sprintf_f 6 amount;
          priceStr =
            (if ticker = ''btcusd'' \<or> ticker = ''ethusd'' then returns (Sprintf_f 2 price)
             else if ticker = ''ethbtc'' then returns (Sprintf_f 5 price)
             else panic ''Unsupported ticker for placing orders'')
      in case priceStr of
        panic msg \<Rightarrow> \<lparr>ga_out = ga, sent = [], logged = [], result = panic msg\<rparr>
      | returns priceStr \<Rightarrow>
          (let a = AuthAPIReq w ga
                     (PtrOrderPlaceReq
                        \<lparr>Request = ''/v1/order/new'', Nonce = 0, Symbol = ticker,
                         Amount = amountStr, Price = priceStr, Side = direction,
                         Type = ''exchange limit'', ClientId = client_id\<rparr>)
           in case result a of
             (body, Some e) \<Rightarrow>
               \<lparr>ga_out = ga_out a, sent = sent a,
                logged = logged a @ [''ERROR: error placing order'' @ [CHR 0x0A]],
                result = returns (zero_Order, Some e)\<rparr>
           | (body, None) \<Rightarrow>
               (case Unmarshal_Order w body of
                  (order, Some e) \<Rightarrow>
                    \<lparr>ga_out = ga_out a, sent = sent a,
                     logged = logged a
                       @ [''ERROR: error decoding order placement json response'' @ [CHR 0x0A]],
                     result = returns (zero_Order, Some (json_Error e))\<rparr>
                | (order, None) \<Rightarrow>
                    \<lparr>ga_out = ga_out a, sent = sent a, logged = logged a,
                     result = returns (order, None)\<rparr>)))"

text \<open>
  A run of authenticated calls on one dispatcher: each call starts from the dispatcher
  the call before it left, in a world of its own (the network may change between calls).
\<close>

fun AuthAPIReq_calls ::
  "GeminiAPI \<Rightarrow> (world \<times> Request) list \<Rightarrow> (bytes \<times> error option) auth_effect list" where
  "AuthAPIReq_calls ga [] = []"
| "AuthAPIReq_calls ga ((w, r) # calls) =
     AuthAPIReq w ga r # AuthAPIReq_calls (ga_out (AuthAPIReq w ga r)) calls"

section \<open>Concrete dispatchers and worlds\<close>

text \<open>The inputs at which the theorems below are instantiated.\<close>

definition example_ga :: GeminiAPI where
  "example_ga =
     \<lparr>BaseURL = ''https://api.gemini.com'', ApiKey = ''key'', ApiSecret = ''secret'',
      Nonce = 42\<rparr>"

text \<open>
  A world where every URL parses and every request is answered with the body \<open>body\<close>;
  its decoders accept the empty JSON array for the two list types and refuse every
  other body with the message \<open>msg\<close>.
\<close>

definition world_answering :: "bytes \<Rightarrow> string \<Rightarrow> world" where
  "world_answering body msg =
     \<lparr>url_Parse = (\<lambda>u. None),
      Do = (\<lambda>req. Inr \<lparr>StatusCode = 200, ReadAll = Inr body\<rparr>),
      Unmarshal_Ticker = (\<lambda>b. (zero_Ticker, Some msg)),
      Unmarshal_Funds = (\<lambda>b. if b = ''[]'' then ([], None) else ([], Some msg)),
      Unmarshal_Orders = (\<lambda>b. if b = ''[]'' then ([], None) else ([], Some msg)),
      Unmarshal_Order = (\<lambda>b. (zero_Order, Some msg))\<rparr>"

text \<open>The same world with the network down: the transport fails every request.\<close>

definition world_down :: world where
  "world_down =
     (world_answering [] ''unexpected end of JSON input'')
       \<lparr>Do := (\<lambda>req. Inl ''dial tcp: connect: connection refused'')\<rparr>"

definition orders_request :: Request where
  "orders_request = PtrBaseRequest (NewBaseRequest ''/v1/orders'')"

text \<open>The nonces of the calls of a run that passed a request to \<open>client.Do\<close>, one per
  such call.\<close>

definition dispatched_nonces :: "(bytes \<times> error option) auth_effect list \<Rightarrow> int64 list" where
  "dispatched_nonces as = map (\<lambda>a. GetNonce (r_out a)) (filter (\<lambda>a. sent a \<noteq> []) as)"

definition ga_max :: GeminiAPI where
  "ga_max = example_ga\<lparr>GeminiAPI.Nonce := 0x7FFFFFFFFFFFFFFF\<rparr>"

definition world_bad_url :: world where
  "world_bad_url =
     (world_answering ''[]'' [])\<lparr>url_Parse := (\<lambda>u. Some ''invalid URL escape'')\<rparr>"

text \<open>
  The message with which \<open>encoding/json\<close> refuses a body whose first byte is \<open>x\<close>.
\<close>

definition bad_json :: string where
  "bad_json = ''invalid character 'x' looking for beginning of value''"

definition is_digit :: "char \<Rightarrow> bool" where
  "is_digit c = (48 \<le> (of_char c :: nat) \<and> (of_char c :: nat) \<le> 57)"

text \<open>
  A decimal numeral with exactly \<open>n\<close> digits after the point: an optional minus sign, at
  least one digit, the point, \<open>n\<close> digits.
\<close>

definition decimal_places :: "nat \<Rightarrow> string \<Rightarrow> bool" where
  "decimal_places n s =
     (let u = (if take 1 s = ''-'' then drop 1 s else s);
          k = length u - (n + 1)
      in n + 1 < length u \<and> list_all is_digit (take k u) \<and> u ! k = CHR ''.''
         \<and> list_all is_digit (drop (k + 1) u))"

text \<open>The \<open>float64\<close> values 0.1, 10123.5 and 0.03125, and Go's \<open>math.NaN()\<close>.\<close>

definition float_0_1 :: float64 where
  "float_0_1 = 0x3FB999999999999A"

definition float_10123_5 :: float64 where
  "float_10123_5 = 0x40C3C5C000000000"

definition float_0_03125 :: float64 where
  "float_0_03125 = 0x3FA0000000000000"

definition float_NaN :: float64 where
  "float_NaN = 0x7FF8000000000001"

text \<open>An order of another type, built by the caller and given to \<open>AuthAPIReq\<close>.\<close>

definition stop_limit_order :: Request where
  "stop_limit_order =
     PtrOrderPlaceReq
       \<lparr>Request = ''/v1/order/new'', Nonce = 0, Symbol = ''btcusd'', Amount = ''0.100000'',
        Price = ''10123.50'', Side = ''buy'', Type = ''exchange stop limit'', ClientId = ''c1''\<rparr>"








section \<open>Facts about AuthAPIReq\<close>

lemma GetRoute_SetNonce [simp]: "GetRoute (SetNonce n r) = GetRoute r"
  by (cases r) simp_all

lemma GetNonce_SetNonce [simp]: "GetNonce (SetNonce n r) = n"
  by (cases r) simp_all

lemma SetNonce_SetNonce [simp]: "SetNonce n (SetNonce m r) = SetNonce n r"
  by (cases r) simp_all

lemma AuthAPIReq_ga_out:
  "ga_out (AuthAPIReq w ga r) = ga\<lparr>GeminiAPI.Nonce := GeminiAPI.Nonce ga + 1\<rparr>"
  by (simp add: AuthAPIReq_def Let_def split: sum.splits)

lemma AuthAPIReq_r_out: "r_out (AuthAPIReq w ga r) = SetNonce (GeminiAPI.Nonce ga) r"
  by (simp add: AuthAPIReq_def Let_def split: sum.splits)

lemma AuthAPIReq_no_error: "snd (result (AuthAPIReq w ga r)) = None"
  by (simp add: AuthAPIReq_def Let_def split: sum.splits)

lemma AuthAPIReq_sent:
  "sent (AuthAPIReq w ga r) =
     (case url_Parse w (BaseURL ga @ GetRoute r) of
        Some e \<Rightarrow> []
      | None \<Rightarrow>
          [\<lparr>Method = ''POST'', URL = BaseURL ga @ GetRoute r,
            Header =
              [(''X-GEMINI-APIKEY'', ApiKey ga),
               (''X-GEMINI-PAYLOAD'',
                base64_EncodeToString (GetPayload (SetNonce (GeminiAPI.Nonce ga) r))),
               (''X-GEMINI-SIGNATURE'',
                hex_EncodeToString
                  (hmac_Sum384 (ApiSecret ga)
                     (base64_EncodeToString (GetPayload (SetNonce (GeminiAPI.Nonce ga) r)))))],
            Body = None\<rparr>])"
  by (auto simp: AuthAPIReq_def Let_def NewRequest_def Header_Add_def
      split: sum.splits option.splits)

lemma AuthAPIReq_cases:
  "AuthAPIReq w ga r =
     (case url_Parse w (BaseURL ga @ GetRoute r) of
        Some e \<Rightarrow>
          \<lparr>ga_out = ga\<lparr>GeminiAPI.Nonce := GeminiAPI.Nonce ga + 1\<rparr>, sent = [],
           logged = [''ERROR: Failed to POST authenticated request to: '' @ GetRoute r @ [CHR 0x0A]],
           result = ([], None), r_out = SetNonce (GeminiAPI.Nonce ga) r\<rparr>
      | None \<Rightarrow>
          (case Do w (hd (sent (AuthAPIReq w ga r))) of
             Inl e \<Rightarrow>
               \<lparr>ga_out = ga\<lparr>GeminiAPI.Nonce := GeminiAPI.Nonce ga + 1\<rparr>,
                sent = sent (AuthAPIReq w ga r),
                logged = [''ERROR: failed to POST authenticated request: '' @ GetRoute r @ [CHR 0x0A]],
                result = ([], None), r_out = SetNonce (GeminiAPI.Nonce ga) r\<rparr>
           | Inr resp \<Rightarrow>
               (case ReadAll resp of
                  Inl e \<Rightarrow>
                    \<lparr>ga_out = ga\<lparr>GeminiAPI.Nonce := GeminiAPI.Nonce ga + 1\<rparr>,
                     sent = sent (AuthAPIReq w ga r),
                     logged = [''ERROR: failed to read response body'' @ [CHR 0x0A]],
                     result = ([], None), r_out = SetNonce (GeminiAPI.Nonce ga) r\<rparr>
                | Inr body \<Rightarrow>
                    \<lparr>ga_out = ga\<lparr>GeminiAPI.Nonce := GeminiAPI.Nonce ga + 1\<rparr>,
                     sent = sent (AuthAPIReq w ga r), logged = [],
                     result = (body, None), r_out = SetNonce (GeminiAPI.Nonce ga) r\<rparr>)))"
proof (cases "url_Parse w (BaseURL ga @ GetRoute r)")
  case (Some e)
  then show ?thesis
    by (simp add: AuthAPIReq_def Let_def NewRequest_def)
next
  case None
  then show ?thesis
    unfolding AuthAPIReq_sent
    by (simp add: AuthAPIReq_def Let_def NewRequest_def Header_Add_def split: sum.splits)
qed

lemma AuthAPIReq_answered:
  assumes "sent (AuthAPIReq w ga r) = [req]"
    and "Do w req = Inr resp"
    and "ReadAll resp = Inr body"
  shows "result (AuthAPIReq w ga r) = (body, None) \<and> logged (AuthAPIReq w ga r) = []"
proof -
  have "url_Parse w (BaseURL ga @ GetRoute r) = None"
    using assms(1) by (simp add: AuthAPIReq_sent split: option.splits)
  moreover have "hd (sent (AuthAPIReq w ga r)) = req"
    using assms(1) by simp
  ultimately show ?thesis
    using assms(2,3) by (subst (1 2) AuthAPIReq_cases) simp
qed

lemma sent_example:
  "sent (AuthAPIReq (world_answering body msg) example_ga r) =
     [\<lparr>Method = ''POST'', URL = ''https://api.gemini.com'' @ GetRoute r,
       Header =
         [(''X-GEMINI-APIKEY'', ''key''),
          (''X-GEMINI-PAYLOAD'', base64_EncodeToString (GetPayload (SetNonce 42 r))),
          (''X-GEMINI-SIGNATURE'',
           hex_EncodeToString
             (hmac_Sum384 ''secret'' (base64_EncodeToString (GetPayload (SetNonce 42 r)))))],
       Body = None\<rparr>]"
  by (simp add: AuthAPIReq_sent world_answering_def example_ga_def)

lemma orders_payload:
  "GetPayload (SetNonce 42 orders_request) = ''{\"request\":\"/v1/orders\",\"nonce\":42}''"
  by code_simp

lemma orders_payload_base64:
  "base64_EncodeToString ''{\"request\":\"/v1/orders\",\"nonce\":42}''
     = ''eyJyZXF1ZXN0IjoiL3YxL29yZGVycyIsIm5vbmNlIjo0Mn0=''"
  by code_simp

lemma orders_base64Payload:
  "base64_EncodeToString (GetPayload (SetNonce 42 orders_request))
     = ''eyJyZXF1ZXN0IjoiL3YxL29yZGVycyIsIm5vbmNlIjo0Mn0=''"
  unfolding orders_payload by (rule orders_payload_base64)

text \<open>The output of base64 never starts with a brace; a marshalled request always does.\<close>

lemma length_encodeStd: "length encodeStd = 64"
  by (simp add: encodeStd_def)

lemma encodeStd_mem: "encodeStd ! (n mod 64) \<in> set encodeStd"
  by (rule nth_mem) (simp add: length_encodeStd)

lemma base64_hd:
  "src \<noteq> [] \<Longrightarrow> hd (base64_EncodeToString src) \<in> set encodeStd"
  by (induction src rule: base64_EncodeToString.induct) (simp_all add: Let_def encodeStd_mem)

lemma brace_not_base64: "CHR ''{'' \<notin> set encodeStd"
  by (simp add: encodeStd_def)

lemma GetPayload_hd: "GetPayload r = CHR ''{'' # tl (GetPayload r)"
  by (cases r) (simp_all add: Marshal_BaseRequest_def Marshal_OrderPlaceReq_def)

lemma base64_payload_differs: "base64_EncodeToString (GetPayload r) \<noteq> GetPayload r"
proof
  assume eq: "base64_EncodeToString (GetPayload r) = GetPayload r"
  have ne: "GetPayload r \<noteq> []"
    using GetPayload_hd [of r] by (metis list.distinct(1))
  have "hd (base64_EncodeToString (GetPayload r)) \<in> set encodeStd"
    using ne by (rule base64_hd)
  moreover have "hd (GetPayload r) = CHR ''{''"
    using GetPayload_hd [of r] by (metis list.sel(1))
  ultimately show False
    using eq brace_not_base64 by simp
qed

section \<open>The claims\<close>

text \<open>
  C1. Every request that \<open>AuthAPIReq\<close> hands to the transport carries, as its
  signature header, the hex digits of HMAC-SHA384 under the dispatcher's secret of the
  base64 text of the request's JSON (the request after \<open>SetNonce\<close>, so with the route,
  the nonce and the caller's fields); the same base64 text is the payload header, and it
  is never the raw JSON itself.
\<close>

theorem AuthAPIReq_signature:
  "\<forall>req \<in> set (sent (AuthAPIReq w ga r)).
     Header_Get ''X-GEMINI-SIGNATURE'' req =
       Some (hex_EncodeToString
              (hmac_Sum384 (ApiSecret ga)
                 (base64_EncodeToString (GetPayload (SetNonce (GeminiAPI.Nonce ga) r)))))
     \<and> Header_Get ''X-GEMINI-PAYLOAD'' req =
         Some (base64_EncodeToString (GetPayload (SetNonce (GeminiAPI.Nonce ga) r)))
     \<and> base64_EncodeToString (GetPayload (SetNonce (GeminiAPI.Nonce ga) r))
         \<noteq> GetPayload (SetNonce (GeminiAPI.Nonce ga) r)"
  by (simp add: AuthAPIReq_sent Header_Get_def base64_payload_differs split: option.splits)

text \<open>C1 at the orders request of the example dispatcher.\<close>

theorem AuthAPIReq_signature_witness:
  "sent (AuthAPIReq (world_answering ''[]'' []) example_ga orders_request) \<noteq> []
   \<and> Header_Get ''X-GEMINI-SIGNATURE''
         (hd (sent (AuthAPIReq (world_answering ''[]'' []) example_ga orders_request)))
       = Some (hex_EncodeToString
                (hmac_Sum384 ''secret'' ''eyJyZXF1ZXN0IjoiL3YxL29yZGVycyIsIm5vbmNlIjo0Mn0=''))"
proof -
  let ?a = "AuthAPIReq (world_answering ''[]'' []) example_ga orders_request"
  have ne: "sent ?a \<noteq> []"
    by (simp add: sent_example)
  then have "hd (sent ?a) \<in> set (sent ?a)"
    by simp
  then have "Header_Get ''X-GEMINI-SIGNATURE'' (hd (sent ?a)) =
       Some (hex_EncodeToString
              (hmac_Sum384 (ApiSecret example_ga)
                 (base64_EncodeToString
                    (GetPayload (SetNonce (GeminiAPI.Nonce example_ga) orders_request)))))"
    using AuthAPIReq_signature [of "world_answering ''[]'' []" example_ga orders_request]
    by blast
  moreover have "ApiSecret example_ga = ''secret''" "GeminiAPI.Nonce example_ga = 42"
    by (simp_all add: example_ga_def)
  ultimately show ?thesis
    using ne by (simp add: orders_base64Payload)
qed

text \<open>
  C3. With the network down, \<open>AuthAPIReq\<close> returns an empty body and a \<open>nil\<close> error,
  exactly what it returns for a response whose body is empty; only the log tells them
  apart. \<open>GetOrderStatus\<close> then reports the failure of decoding the empty body, not a
  failure of the transport.
\<close>

theorem AuthAPIReq_swallows_transport_failure:
  "result (AuthAPIReq world_down example_ga orders_request) = ([], None)
   \<and> result (AuthAPIReq (world_answering [] []) example_ga orders_request) = ([], None)
   \<and> logged (AuthAPIReq world_down example_ga orders_request)
       = [''ERROR: failed to POST authenticated request: /v1/orders'' @ [CHR 0x0A]]
   \<and> result (GetOrderStatus world_down example_ga)
       = ([], Some (json_Error ''unexpected end of JSON input''))"
  by (simp add: AuthAPIReq_def GetOrderStatus_def world_down_def world_answering_def
      NewRequest_def Let_def orders_request_def NewBaseRequest_def)

text \<open>
  C4, as stated, fails: the request of the example dispatcher has no header named
  \<open>X-API-KEY\<close>, \<open>X-API-PAYLOAD\<close> or \<open>X-API-SIGNATURE\<close>.
\<close>

theorem AuthAPIReq_header_names_counterexample:
  "sent (AuthAPIReq (world_answering ''[]'' []) example_ga orders_request) \<noteq> []
   \<and> map fst (Header (hd (sent (AuthAPIReq (world_answering ''[]'' []) example_ga orders_request))))
       = [''X-GEMINI-APIKEY'', ''X-GEMINI-PAYLOAD'', ''X-GEMINI-SIGNATURE'']
   \<and> Header_Get ''X-API-KEY''
        (hd (sent (AuthAPIReq (world_answering ''[]'' []) example_ga orders_request))) = None
   \<and> Header_Get ''X-API-PAYLOAD''
        (hd (sent (AuthAPIReq (world_answering ''[]'' []) example_ga orders_request))) = None
   \<and> Header_Get ''X-API-SIGNATURE''
        (hd (sent (AuthAPIReq (world_answering ''[]'' []) example_ga orders_request))) = None"
  by (simp add: sent_example Header_Get_def)

text \<open>
  C4, amended. Every request that \<open>AuthAPIReq\<close> dispatches is a POST to \<open>BaseURL\<close>
  followed by the route, without a body, with exactly three headers, added under the
  names \<open>X-GEMINI-APIKEY\<close> (the key), \<open>X-GEMINI-PAYLOAD\<close> (the base64 payload) and
  \<open>X-GEMINI-SIGNATURE\<close> (the hex signature).
\<close>

theorem AuthAPIReq_request_shape:
  "\<forall>req \<in> set (sent (AuthAPIReq w ga r)).
     Method req = ''POST'' \<and> URL req = BaseURL ga @ GetRoute r \<and> Body req = None
     \<and> Header req =
         [(''X-GEMINI-APIKEY'', ApiKey ga),
          (''X-GEMINI-PAYLOAD'',
           base64_EncodeToString (GetPayload (SetNonce (GeminiAPI.Nonce ga) r))),
          (''X-GEMINI-SIGNATURE'',
           hex_EncodeToString
             (hmac_Sum384 (ApiSecret ga)
                (base64_EncodeToString (GetPayload (SetNonce (GeminiAPI.Nonce ga) r)))))]"
  by (simp add: AuthAPIReq_sent split: option.splits)

text \<open>C4, amended, at the orders request of the example dispatcher.\<close>

theorem AuthAPIReq_request_shape_witness:
  "sent (AuthAPIReq (world_answering ''[]'' []) example_ga orders_request) \<noteq> []
   \<and> Method (hd (sent (AuthAPIReq (world_answering ''[]'' []) example_ga orders_request))) = ''POST''
   \<and> URL (hd (sent (AuthAPIReq (world_answering ''[]'' []) example_ga orders_request)))
       = ''https://api.gemini.com/v1/orders''
   \<and> Body (hd (sent (AuthAPIReq (world_answering ''[]'' []) example_ga orders_request))) = None
   \<and> map fst (Header (hd (sent (AuthAPIReq (world_answering ''[]'' []) example_ga orders_request))))
       = [''X-GEMINI-APIKEY'', ''X-GEMINI-PAYLOAD'', ''X-GEMINI-SIGNATURE'']"
proof -
  let ?a = "AuthAPIReq (world_answering ''[]'' []) example_ga orders_request"
  have ne: "sent ?a \<noteq> []"
    by (simp add: sent_example)
  then have "hd (sent ?a) \<in> set (sent ?a)"
    by simp
  then have "Method (hd (sent ?a)) = ''POST''
      \<and> URL (hd (sent ?a)) = BaseURL example_ga @ GetRoute orders_request
      \<and> Body (hd (sent ?a)) = None
      \<and> map fst (Header (hd (sent ?a)))
          = [''X-GEMINI-APIKEY'', ''X-GEMINI-PAYLOAD'', ''X-GEMINI-SIGNATURE'']"
    using AuthAPIReq_request_shape [of "world_answering ''[]'' []" example_ga orders_request]
    by simp
  then show ?thesis
    using ne by (simp add: example_ga_def orders_request_def NewBaseRequest_def)
qed

text \<open>
  C7. \<open>PlaceLimitOrder\<close> with a ticker other than \<open>btcusd\<close>, \<open>ethusd\<close> and
  \<open>ethbtc\<close> panics (the spec's ConfigurationError): the dispatcher, its nonce included,
  is as before the call, nothing went to the transport and nothing was logged.
\<close>

theorem PlaceLimitOrder_unsupported_ticker:
  assumes "ticker \<noteq> ''btcusd''" and "ticker \<noteq> ''ethusd''" and "ticker \<noteq> ''ethbtc''"
  shows "PlaceLimitOrder w ga direction ticker client_id amount price =
           \<lparr>ga_out = ga, sent = [], logged = [],
            result = panic ''Unsupported ticker for placing orders''\<rparr>"
  using assms by (simp add: PlaceLimitOrder_def)

text \<open>C7 at the ticker \<open>ltcusd\<close>.\<close>

theorem PlaceLimitOrder_unsupported_ticker_witness:
  "PlaceLimitOrder (world_answering ''[]'' []) example_ga ''buy'' ''ltcusd'' ''c1''
       0x3fb999999999999a 0x40c3c5c000000000 =
     \<lparr>ga_out = example_ga, sent = [], logged = [],
      result = panic ''Unsupported ticker for placing orders''\<rparr>"
  using PlaceLimitOrder_unsupported_ticker
    [of "''ltcusd''" "world_answering ''[]'' []" example_ga "''buy''" "''c1''"
        "0x3fb999999999999a" "0x40c3c5c000000000"]
  by simp

text \<open>
  C9. \<open>GetTicker\<close> leaves the dispatcher as it was, nonce and every other field, and
  the only request it hands to the transport is a GET to \<open>BaseURL\<close> followed by
  \<open>/v1/pubticker/\<close> and the pair, with no header and no body; it hands over exactly
  that one whenever \<open>net/url\<close> accepts the address.
\<close>

theorem GetTicker_plain_get:
  "ga_out (GetTicker w ga pair) = ga
   \<and> sent (GetTicker w ga pair) =
       (case url_Parse w (BaseURL ga @ ''/v1/pubticker/'' @ pair) of
          Some e \<Rightarrow> []
        | None \<Rightarrow>
            [\<lparr>Method = ''GET'', URL = BaseURL ga @ ''/v1/pubticker/'' @ pair,
              Header = [], Body = None\<rparr>])"
  by (simp add: GetTicker_def NewRequest_def Let_def split: option.splits sum.splits prod.splits)

text \<open>C9 at the pair \<open>btcusd\<close>.\<close>

theorem GetTicker_plain_get_witness:
  "ga_out (GetTicker (world_answering ''[]'' []) example_ga ''btcusd'') = example_ga
   \<and> sent (GetTicker (world_answering ''[]'' []) example_ga ''btcusd'') =
       [\<lparr>Method = ''GET'', URL = ''https://api.gemini.com/v1/pubticker/btcusd'',
         Header = [], Body = None\<rparr>]"
  using GetTicker_plain_get [of "world_answering ''[]'' []" example_ga "''btcusd''"]
  by (simp add: world_answering_def example_ga_def)

section \<open>Facts about runs of calls\<close>

lemma length_AuthAPIReq_calls [simp]: "length (AuthAPIReq_calls ga calls) = length calls"
  by (induction ga calls rule: AuthAPIReq_calls.induct) simp_all

lemma upt_Suc_shift: "[0..<Suc n] = 0 # map Suc [0..<n]"
  by (simp add: upt_conv_Cons map_Suc_upt del: upt_Suc)

lemma calls_r_out:
  "map (\<lambda>a. GetNonce (r_out a)) (AuthAPIReq_calls ga calls) =
     map (\<lambda>i. GeminiAPI.Nonce ga + of_nat i) [0..<length calls]"
proof (induction ga calls rule: AuthAPIReq_calls.induct)
  case (1 ga)
  show ?case by simp
next
  case (2 ga w r calls)
  have "map (\<lambda>a. GetNonce (r_out a)) (AuthAPIReq_calls ga ((w, r) # calls)) =
      GeminiAPI.Nonce ga # map (\<lambda>i. GeminiAPI.Nonce ga + 1 + of_nat i) [0..<length calls]"
    using 2 by (simp add: AuthAPIReq_r_out AuthAPIReq_ga_out)
  also have "\<dots> = map (\<lambda>i. GeminiAPI.Nonce ga + of_nat i) [0..<length ((w, r) # calls)]"
    by (simp add: upt_Suc_shift comp_def add.assoc del: upt_Suc)
  finally show ?case .
qed

lemma calls_ga_out:
  "map (\<lambda>a. GeminiAPI.Nonce (ga_out a)) (AuthAPIReq_calls ga calls) =
     map (\<lambda>i. GeminiAPI.Nonce ga + of_nat i + 1) [0..<length calls]"
proof (induction ga calls rule: AuthAPIReq_calls.induct)
  case (1 ga)
  show ?case by simp
next
  case (2 ga w r calls)
  have "map (\<lambda>a. GeminiAPI.Nonce (ga_out a)) (AuthAPIReq_calls ga ((w, r) # calls)) =
      (GeminiAPI.Nonce ga + 1)
        # map (\<lambda>i. GeminiAPI.Nonce ga + 1 + of_nat i + 1) [0..<length calls]"
    using 2 by (simp add: AuthAPIReq_ga_out)
  also have "\<dots> = map (\<lambda>i. GeminiAPI.Nonce ga + of_nat i + 1) [0..<length ((w, r) # calls)]"
    by (simp add: upt_Suc_shift comp_def add.assoc add.commute del: upt_Suc)
  finally show ?case .
qed

lemma calls_payload:
  "a \<in> set (AuthAPIReq_calls ga calls) \<Longrightarrow> req \<in> set (sent a) \<Longrightarrow>
     Header_Get ''X-GEMINI-PAYLOAD'' req = Some (base64_EncodeToString (GetPayload (r_out a)))"
proof (induction ga calls rule: AuthAPIReq_calls.induct)
  case (1 ga)
  then show ?case by simp
next
  case (2 ga w r calls)
  show ?case
  proof (cases "a = AuthAPIReq w ga r")
    case True
    then show ?thesis
      using 2(3) by (simp add: AuthAPIReq_sent AuthAPIReq_r_out Header_Get_def split: option.splits)
  next
    case False
    then show ?thesis using 2 by simp
  qed
qed

lemma sint_add_of_nat:
  assumes "sint (n :: int64) + int i < 2 ^ 63"
  shows "sint (n + of_nat i) = sint n + int i"
proof -
  have lo: "- (2 ^ 63) \<le> sint n"
    using sint_ge [of n] by simp
  have "n + of_nat i = word_of_int (sint n + int i)"
    by simp
  then have "sint (n + of_nat i) = signed_take_bit 63 (sint n + int i)"
    by (simp only: sint_sbintrunc') simp
  also have "\<dots> = sint n + int i"
    using lo assms by (simp add: signed_take_bit_int_eq_self)
  finally show ?thesis .
qed

lemma nonces_increasing:
  assumes "sint (n :: int64) + int k \<le> 2 ^ 63"
  shows "sorted_wrt (<) (map (\<lambda>i. sint (n + of_nat i)) [0..<k])"
proof -
  have "sint (n + of_nat i) = sint n + int i" if "i < k" for i
    using that assms by (intro sint_add_of_nat) linarith
  then have eq: "map (\<lambda>i. sint (n + of_nat i)) [0..<k] = map (\<lambda>i. sint n + int i) [0..<k]"
    by (intro map_cong) simp_all
  have "sorted_wrt (<) (map (\<lambda>i. sint n + int i) [0..<k])"
    by (simp add: sorted_wrt_map sorted_wrt_iff_nth_less)
  then show ?thesis
    unfolding eq .
qed

lemma dispatched_nonces_sublist:
  "dispatched_nonces as = map (\<lambda>a. GetNonce (r_out a)) (filter (\<lambda>a. sent a \<noteq> []) as)"
  by (simp add: dispatched_nonces_def comp_def)

lemma sorted_wrt_map_filter:
  "sorted_wrt (<) (map f xs) \<Longrightarrow> sorted_wrt (<) (map f (filter P xs))"
  by (induction xs) (auto simp: sorted_wrt_map)

lemma sorted_less_distinct: "sorted_wrt (<) (xs :: int list) \<Longrightarrow> distinct xs"
  by (induction xs) auto

text \<open>
  C2, amended. In every run of calls from the counter \<open>n\<close>, call number \<open>i\<close> writes
  \<open>n + i\<close> into its request, the payload of the request it passes to \<open>client.Do\<close> is
  the JSON of that request, and it leaves the counter at \<open>n + i + 1\<close>, whatever the
  world does to the call: one step up per call, modulo \<open>2 ^ 64\<close>, taken before the
  payload is signed, and never a step back. As long as the counter does not pass the
  largest \<open>int64\<close> during the run (\<open>n\<close> plus the number of calls is at most
  \<open>2 ^ 63\<close>), the nonces that the calls put into the requests they pass to
  \<open>client.Do\<close> are strictly increasing from call to call and pairwise distinct.
\<close>

theorem nonces_strictly_increasing:
  "map (\<lambda>a. GetNonce (r_out a)) (AuthAPIReq_calls ga calls) =
     map (\<lambda>i. GeminiAPI.Nonce ga + of_nat i) [0..<length calls]
   \<and> map (\<lambda>a. GeminiAPI.Nonce (ga_out a)) (AuthAPIReq_calls ga calls) =
       map (\<lambda>i. GeminiAPI.Nonce ga + of_nat i + 1) [0..<length calls]
   \<and> (\<forall>a \<in> set (AuthAPIReq_calls ga calls). \<forall>req \<in> set (sent a).
         Header_Get ''X-GEMINI-PAYLOAD'' req
           = Some (base64_EncodeToString (GetPayload (r_out a))))
   \<and> (sint (GeminiAPI.Nonce ga) + int (length calls) \<le> 2 ^ 63 \<longrightarrow>
         sorted_wrt (<) (map sint (dispatched_nonces (AuthAPIReq_calls ga calls)))
         \<and> distinct (dispatched_nonces (AuthAPIReq_calls ga calls)))"
proof -
  let ?as = "AuthAPIReq_calls ga calls"
  have "sorted_wrt (<) (map sint (dispatched_nonces ?as)) \<and> distinct (dispatched_nonces ?as)"
    if h: "sint (GeminiAPI.Nonce ga) + int (length calls) \<le> 2 ^ 63"
  proof -
    have "sorted_wrt (<) (map (\<lambda>i. sint (GeminiAPI.Nonce ga + of_nat i)) [0..<length calls])"
      using h by (rule nonces_increasing)
    then have "sorted_wrt (<) (map (\<lambda>a. sint (GetNonce (r_out a))) ?as)"
      using calls_r_out [of ga calls, THEN arg_cong, of "map sint"] by (simp add: comp_def)
    then have "sorted_wrt (<)
        (map (\<lambda>a. sint (GetNonce (r_out a))) (filter (\<lambda>a. sent a \<noteq> []) ?as))"
      by (rule sorted_wrt_map_filter)
    then have inc: "sorted_wrt (<) (map sint (dispatched_nonces ?as))"
      by (simp add: dispatched_nonces_def comp_def)
    then have "distinct (map sint (dispatched_nonces ?as))"
      by (rule sorted_less_distinct)
    then have "distinct (dispatched_nonces ?as)"
      by (simp add: distinct_map)
    with inc show ?thesis
      by simp
  qed
  moreover have "\<forall>a \<in> set ?as. \<forall>req \<in> set (sent a).
      Header_Get ''X-GEMINI-PAYLOAD'' req = Some (base64_EncodeToString (GetPayload (r_out a)))"
    using calls_payload by blast
  ultimately show ?thesis
    using calls_r_out [of ga calls] calls_ga_out [of ga calls] by blast
qed

text \<open>
  C2, amended, at three calls from nonce 42: one answered, one whose URL is refused (it
  uses up 43 and sends nothing), one with the network down.
\<close>

theorem nonces_strictly_increasing_witness:
  "sint (GeminiAPI.Nonce example_ga) + int (length
      [(world_answering ''[]'' [], orders_request), (world_bad_url, orders_request),
       (world_down, orders_request)]) \<le> 2 ^ 63
   \<and> dispatched_nonces (AuthAPIReq_calls example_ga
        [(world_answering ''[]'' [], orders_request), (world_bad_url, orders_request),
         (world_down, orders_request)]) = [42, 44]
   \<and> sorted_wrt (<) (map sint (dispatched_nonces (AuthAPIReq_calls example_ga
        [(world_answering ''[]'' [], orders_request), (world_bad_url, orders_request),
         (world_down, orders_request)])))
   \<and> map (\<lambda>a. GeminiAPI.Nonce (ga_out a)) (AuthAPIReq_calls example_ga
        [(world_answering ''[]'' [], orders_request), (world_bad_url, orders_request),
         (world_down, orders_request)]) = [43, 44, 45]"
proof -
  let ?calls = "[(world_answering ''[]'' [], orders_request), (world_bad_url, orders_request),
         (world_down, orders_request)]"
  have h: "sint (GeminiAPI.Nonce example_ga) + int (length ?calls) \<le> 2 ^ 63"
    by (simp add: example_ga_def)
  have d: "dispatched_nonces (AuthAPIReq_calls example_ga ?calls) = [42, 44]"
    by (simp add: dispatched_nonces_def AuthAPIReq_sent AuthAPIReq_r_out AuthAPIReq_ga_out
        world_answering_def world_bad_url_def world_down_def example_ga_def)
  show ?thesis
    using nonces_strictly_increasing [of example_ga ?calls] h d
    by (simp add: example_ga_def upt_Suc_shift numeral_3_eq_3 del: upt_Suc)
qed

text \<open>
  C2, as stated, fails: from the largest \<open>int64\<close> the second nonce is the smallest one.
\<close>

theorem nonce_overflow_counterexample:
  "map sint (dispatched_nonces (AuthAPIReq_calls ga_max
      [(world_answering ''[]'' [], orders_request), (world_answering ''[]'' [], orders_request)]))
     = [9223372036854775807, - 9223372036854775808]
   \<and> \<not> sorted_wrt (<) (map sint (dispatched_nonces (AuthAPIReq_calls ga_max
      [(world_answering ''[]'' [], orders_request), (world_answering ''[]'' [], orders_request)])))"
proof -
  have "dispatched_nonces (AuthAPIReq_calls ga_max
      [(world_answering ''[]'' [], orders_request), (world_answering ''[]'' [], orders_request)])
     = [0x7FFFFFFFFFFFFFFF, 0x8000000000000000]"
    by (simp add: dispatched_nonces_def AuthAPIReq_sent AuthAPIReq_r_out AuthAPIReq_ga_out
        world_answering_def ga_max_def example_ga_def)
  then show ?thesis
    by simp
qed

text \<open>
  C8, amended. When the request of \<open>GetOrderStatus\<close> is answered with a body that
  \<open>json.Unmarshal\<close> refuses, the caller gets an empty list of orders and the decoder's
  error (the spec's DecodeError), the log gets one fixed line, and the nonce is used up.
  The body itself is in none of them.
\<close>

theorem GetOrderStatus_decode_error:
  assumes "sent (GetOrderStatus w ga) = [req]"
    and "Do w req = Inr resp"
    and "ReadAll resp = Inr body"
    and "Unmarshal_Orders w body = (orders, Some e)"
  shows "result (GetOrderStatus w ga) = ([], Some (json_Error e))
    \<and> is_DecodeError (json_Error e)
    \<and> logged (GetOrderStatus w ga) = [''ERROR: Failed to decode order status json'' @ [CHR 0x0A]]
    \<and> ga_out (GetOrderStatus w ga) = ga\<lparr>GeminiAPI.Nonce := GeminiAPI.Nonce ga + 1\<rparr>"
proof -
  let ?a = "AuthAPIReq w ga (PtrBaseRequest (NewBaseRequest ''/v1/orders''))"
  have s: "sent ?a = [req]"
    using assms(1) by (simp add: GetOrderStatus_def Let_def split: prod.splits option.splits)
  have "result ?a = (body, None) \<and> logged ?a = []"
    using s assms(2,3) by (rule AuthAPIReq_answered)
  then show ?thesis
    using assms(4) by (simp add: GetOrderStatus_def Let_def AuthAPIReq_ga_out)
qed

text \<open>C8, amended, at the body \<open>x\<close>.\<close>

theorem GetOrderStatus_decode_error_witness:
  "sent (GetOrderStatus (world_answering ''x'' bad_json) example_ga) \<noteq> []
   \<and> Do (world_answering ''x'' bad_json)
        (hd (sent (GetOrderStatus (world_answering ''x'' bad_json) example_ga)))
       = Inr \<lparr>StatusCode = 200, ReadAll = Inr ''x''\<rparr>
   \<and> Unmarshal_Orders (world_answering ''x'' bad_json) ''x'' = ([], Some bad_json)
   \<and> result (GetOrderStatus (world_answering ''x'' bad_json) example_ga)
       = ([], Some (json_Error bad_json))
   \<and> logged (GetOrderStatus (world_answering ''x'' bad_json) example_ga)
       = [''ERROR: Failed to decode order status json'' @ [CHR 0x0A]]"
proof -
  let ?w = "world_answering ''x'' bad_json"
  have s: "sent (GetOrderStatus ?w example_ga) = [hd (sent (GetOrderStatus ?w example_ga))]"
    by (simp add: GetOrderStatus_def Let_def AuthAPIReq_sent world_answering_def
        split: prod.splits option.splits)
  have d: "Do ?w (hd (sent (GetOrderStatus ?w example_ga)))
      = Inr \<lparr>StatusCode = 200, ReadAll = Inr ''x''\<rparr>"
    by (simp add: world_answering_def)
  have r: "ReadAll \<lparr>StatusCode = 200, ReadAll = Inr ''x''\<rparr> = Inr ''x''"
    by simp
  have u: "Unmarshal_Orders ?w ''x'' = ([], Some bad_json)"
    by (simp add: world_answering_def)
  have ne: "sent (GetOrderStatus ?w example_ga) \<noteq> []"
    using s by (metis list.distinct(1))
  show ?thesis
    using GetOrderStatus_decode_error [OF s d r u] ne d u by simp
qed

text \<open>
  C8, as stated, fails: the bodies \<open>x\<close> and \<open>xy\<close> are refused alike, and everything
  \<open>GetOrderStatus\<close> returns, logs, sends and leaves in the dispatcher is the same for
  both, so the body cannot be recovered from it.
\<close>

theorem GetOrderStatus_drops_body_counterexample:
  "GetOrderStatus (world_answering ''x'' bad_json) example_ga
     = GetOrderStatus (world_answering ''xy'' bad_json) example_ga
   \<and> result (GetOrderStatus (world_answering ''x'' bad_json) example_ga)
       = ([], Some (json_Error bad_json))
   \<and> ''x'' \<noteq> ''xy''"
  by (simp add: GetOrderStatus_def AuthAPIReq_def Let_def NewRequest_def world_answering_def)

lemma is_digit_digits: "d < 10 \<Longrightarrow> is_digit (digits ! d)"
proof -
  assume "d < 10"
  then have "digits ! d \<in> set digits"
    by (intro nth_mem) (simp add: digits_def)
  moreover have "list_all is_digit digits"
    by (simp add: digits_def is_digit_def)
  ultimately show ?thesis
    by (simp add: list_all_iff)
qed

lemma FormatUint_digits: "list_all is_digit (FormatUint n)"
proof (induction n rule: FormatUint.induct)
  case (1 n)
  show ?case
  proof (cases "n < 10")
    case True
    then show ?thesis
      by (subst FormatUint.simps) (simp add: is_digit_digits)
  next
    case False
    then show ?thesis
      using 1 by (subst FormatUint.simps) (simp add: is_digit_digits)
  qed
qed

lemma FormatUint_nonempty: "FormatUint n \<noteq> []"
  by (subst FormatUint.simps) simp

lemma length_frac_digits: "length (frac_digits prec n) = prec"
  by (induction prec arbitrary: n) simp_all

lemma frac_digits_digits: "list_all is_digit (frac_digits prec n)"
  by (induction prec arbitrary: n) (simp_all add: is_digit_digits)

lemma minus_not_digit: "\<not> is_digit (CHR ''-'')"
  by (simp add: is_digit_def)

lemma decimal_places_unsigned:
  assumes "list_all is_digit ip" and "ip \<noteq> []" and "list_all is_digit fp"
  shows "decimal_places (length fp) (ip @ CHR ''.'' # fp)"
proof -
  let ?s = "ip @ CHR ''.'' # fp"
  have "take 1 ?s \<noteq> ''-''"
    using assms(1,2) minus_not_digit by (cases ip) auto
  then have u: "(if take 1 ?s = ''-'' then drop 1 ?s else ?s) = ?s"
    by simp
  have k: "length ?s - (length fp + 1) = length ip"
    by simp
  have "length fp + 1 < length ?s"
    using assms(2) by (cases ip) simp_all
  moreover have "take (length ip) ?s = ip"
    by simp
  moreover have "?s ! length ip = CHR ''.''"
    by (simp add: nth_append)
  moreover have "drop (length ip + 1) ?s = fp"
    by simp
  ultimately show ?thesis
    unfolding decimal_places_def Let_def u k using assms by simp
qed

lemma decimal_places_signed:
  assumes "list_all is_digit ip" and "ip \<noteq> []" and "list_all is_digit fp"
  shows "decimal_places (length fp) (CHR ''-'' # ip @ CHR ''.'' # fp)"
proof -
  let ?s = "ip @ CHR ''.'' # fp"
  have u: "(if take 1 (CHR ''-'' # ?s) = ''-'' then drop 1 (CHR ''-'' # ?s) else CHR ''-'' # ?s) = ?s"
    by simp
  have k: "length ?s - (length fp + 1) = length ip"
    by simp
  have "length fp + 1 < length ?s"
    using assms(2) by (cases ip) simp_all
  moreover have "take (length ip) ?s = ip"
    by simp
  moreover have "?s ! length ip = CHR ''.''"
    by (simp add: nth_append)
  moreover have "drop (length ip + 1) ?s = fp"
    by simp
  ultimately show ?thesis
    unfolding decimal_places_def Let_def u k using assms by simp
qed

lemma FormatFloat_f_places:
  assumes "0 < prec"
  shows "decimal_places prec (FormatFloat_f prec x)"
proof -
  let ?ip = "FormatUint (float_scaled prec x div 10 ^ prec)"
  let ?fp = "frac_digits prec (float_scaled prec x mod 10 ^ prec)"
  have "decimal_places (length ?fp) (?ip @ CHR ''.'' # ?fp)"
    by (intro decimal_places_unsigned FormatUint_digits FormatUint_nonempty frac_digits_digits)
  moreover have "decimal_places (length ?fp) (CHR ''-'' # ?ip @ CHR ''.'' # ?fp)"
    by (intro decimal_places_signed FormatUint_digits FormatUint_nonempty frac_digits_digits)
  ultimately show ?thesis
    using assms by (simp add: FormatFloat_f_def length_frac_digits)
qed

lemma Sprintf_f_places:
  "\<not> IsNaN x \<Longrightarrow> \<not> IsInf x \<Longrightarrow> 0 < prec \<Longrightarrow> decimal_places prec (Sprintf_f prec x)"
  by (simp add: Sprintf_f_def FormatFloat_f_places)

text \<open>What \<open>PlaceLimitOrder\<close> does for a ticker it knows, in terms of its call of
  \<open>AuthAPIReq\<close>.\<close>

lemma PlaceLimitOrder_known:
  assumes "ticker = ''btcusd'' \<or> ticker = ''ethusd'' \<or> ticker = ''ethbtc''"
    and "a = AuthAPIReq w ga
           (PtrOrderPlaceReq
              \<lparr>Request = ''/v1/order/new'', Nonce = 0, Symbol = ticker,
               Amount = Sprintf_f 6 amount,
               Price = Sprintf_f (if ticker = ''ethbtc'' then 5 else 2) price,
               Side = direction, Type = ''exchange limit'', ClientId = client_id\<rparr>)"
  shows "PlaceLimitOrder w ga direction ticker client_id amount price =
     (case result a of
        (body, Some e) \<Rightarrow>
          \<lparr>ga_out = ga_out a, sent = sent a,
           logged = logged a @ [''ERROR: error placing order'' @ [CHR 0x0A]],
           result = returns (zero_Order, Some e)\<rparr>
      | (body, None) \<Rightarrow>
          (case Unmarshal_Order w body of
             (order, Some e) \<Rightarrow>
               \<lparr>ga_out = ga_out a, sent = sent a,
                logged = logged a
                  @ [''ERROR: error decoding order placement json response'' @ [CHR 0x0A]],
                result = returns (zero_Order, Some (json_Error e))\<rparr>
           | (order, None) \<Rightarrow>
               \<lparr>ga_out = ga_out a, sent = sent a, logged = logged a,
                result = returns (order, None)\<rparr>))"
  using assms(1) unfolding assms(2) PlaceLimitOrder_def Let_def by auto

lemma PlaceLimitOrder_unknown:
  assumes "ticker \<noteq> ''btcusd''" and "ticker \<noteq> ''ethusd''" and "ticker \<noteq> ''ethbtc''"
  shows "PlaceLimitOrder w ga direction ticker client_id amount price =
           \<lparr>ga_out = ga, sent = [], logged = [],
            result = panic ''Unsupported ticker for placing orders''\<rparr>"
  using assms by (simp add: PlaceLimitOrder_def)

lemma PlaceLimitOrder_sent:
  "sent (PlaceLimitOrder w ga direction ticker client_id amount price) =
     (if ticker = ''btcusd'' \<or> ticker = ''ethusd'' \<or> ticker = ''ethbtc''
      then sent (AuthAPIReq w ga
             (PtrOrderPlaceReq
                \<lparr>Request = ''/v1/order/new'', Nonce = 0, Symbol = ticker,
                 Amount = Sprintf_f 6 amount,
                 Price = Sprintf_f (if ticker = ''ethbtc'' then 5 else 2) price,
                 Side = direction, Type = ''exchange limit'', ClientId = client_id\<rparr>))
      else [])"
proof (cases "ticker = ''btcusd'' \<or> ticker = ''ethusd'' \<or> ticker = ''ethbtc''")
  case True
  define a where "a = AuthAPIReq w ga
           (PtrOrderPlaceReq
              \<lparr>Request = ''/v1/order/new'', Nonce = 0, Symbol = ticker,
               Amount = Sprintf_f 6 amount,
               Price = Sprintf_f (if ticker = ''ethbtc'' then 5 else 2) price,
               Side = direction, Type = ''exchange limit'', ClientId = client_id\<rparr>)"
  have "sent (PlaceLimitOrder w ga direction ticker client_id amount price) = sent a"
    unfolding PlaceLimitOrder_known [OF True a_def]
    by (simp split: prod.splits option.splits)
  then show ?thesis
    using True by (simp only: a_def if_True)
next
  case False
  then show ?thesis
    by (simp add: PlaceLimitOrder_unknown)
qed

lemma Sprintf_f_6_0_1: "Sprintf_f 6 float_0_1 = ''0.100000''"
  by code_simp

lemma Sprintf_f_2_10123_5: "Sprintf_f 2 float_10123_5 = ''10123.50''"
  by code_simp

lemma Sprintf_f_5_0_03125: "Sprintf_f 5 float_0_03125 = ''0.03125''"
  by code_simp

lemma Sprintf_f_6_NaN: "Sprintf_f 6 float_NaN = ''NaN''"
  by (simp add: Sprintf_f_def IsNaN_def float_biased_def float_frac_def float_NaN_def)

lemma finite_examples:
  "\<not> IsNaN float_0_1" "\<not> IsInf float_0_1"
  "\<not> IsNaN float_10123_5" "\<not> IsInf float_10123_5"
  "\<not> IsNaN float_0_03125" "\<not> IsInf float_0_03125"
  by (simp_all add: IsNaN_def IsInf_def float_biased_def float_frac_def
      float_0_1_def float_10123_5_def float_0_03125_def)

lemma Marshal_order_btcusd:
  "Marshal_OrderPlaceReq
     \<lparr>Request = ''/v1/order/new'', Nonce = 42, Symbol = ''btcusd'', Amount = ''0.100000'',
      Price = ''10123.50'', Side = ''buy'', Type = ''exchange limit'', ClientId = ''c1''\<rparr>
   = ''{\"request\":\"/v1/order/new\",\"nonce\":42,\"symbol\":\"btcusd\",\"amount\":\"0.100000\",\"price\":\"10123.50\",\"side\":\"buy\",\"type\":\"exchange limit\",\"client_order_id\":\"c1\"}''"
  by code_simp

lemma Marshal_order_ethbtc:
  "Marshal_OrderPlaceReq
     \<lparr>Request = ''/v1/order/new'', Nonce = 42, Symbol = ''ethbtc'', Amount = ''0.100000'',
      Price = ''0.03125'', Side = ''buy'', Type = ''exchange limit'', ClientId = ''c1''\<rparr>
   = ''{\"request\":\"/v1/order/new\",\"nonce\":42,\"symbol\":\"ethbtc\",\"amount\":\"0.100000\",\"price\":\"0.03125\",\"side\":\"buy\",\"type\":\"exchange limit\",\"client_order_id\":\"c1\"}''"
  by code_simp

lemma Marshal_order_NaN:
  "Marshal_OrderPlaceReq
     \<lparr>Request = ''/v1/order/new'', Nonce = 42, Symbol = ''btcusd'', Amount = ''NaN'',
      Price = ''10123.50'', Side = ''buy'', Type = ''exchange limit'', ClientId = ''c1''\<rparr>
   = ''{\"request\":\"/v1/order/new\",\"nonce\":42,\"symbol\":\"btcusd\",\"amount\":\"NaN\",\"price\":\"10123.50\",\"side\":\"buy\",\"type\":\"exchange limit\",\"client_order_id\":\"c1\"}''"
  by code_simp

lemma Marshal_order_stop_limit:
  "GetPayload (SetNonce 42 stop_limit_order)
   = ''{\"request\":\"/v1/order/new\",\"nonce\":42,\"symbol\":\"btcusd\",\"amount\":\"0.100000\",\"price\":\"10123.50\",\"side\":\"buy\",\"type\":\"exchange stop limit\",\"client_order_id\":\"c1\"}''"
  by code_simp

lemma json_string_route: "json_string ''/v1/order/new'' = ''\"/v1/order/new\"''"
  by code_simp

lemma json_string_type: "json_string ''exchange limit'' = ''\"exchange limit\"''"
  by code_simp

lemma PlaceLimitOrder_sent_example:
  assumes "ticker = ''btcusd'' \<or> ticker = ''ethusd'' \<or> ticker = ''ethbtc''"
  shows "sent (PlaceLimitOrder (world_answering body msg) example_ga direction ticker client_id
            amount price) \<noteq> []"
  using assms by (simp add: PlaceLimitOrder_sent AuthAPIReq_sent world_answering_def)

lemma decimal_places_examples:
  "decimal_places 6 ''0.100000''" "decimal_places 2 ''10123.50''"
  "decimal_places 5 ''0.03125''" "\<not> decimal_places 6 ''NaN''"
  by (simp_all add: decimal_places_def is_digit_def)

text \<open>
  C6, amended. For a finite amount and a finite price, the request that
  \<open>PlaceLimitOrder\<close> sends carries the JSON of an order whose amount is the amount
  printed with exactly six digits after the point, and whose price is the price printed
  with exactly two digits after the point for \<open>btcusd\<close> and \<open>ethusd\<close> and exactly five
  for \<open>ethbtc\<close>.
\<close>

theorem PlaceLimitOrder_decimal_places:
  assumes "\<not> IsNaN amount" and "\<not> IsInf amount" and "\<not> IsNaN price" and "\<not> IsInf price"
  shows "\<forall>req \<in> set (sent (PlaceLimitOrder w ga direction ticker client_id amount price)).
     Header_Get ''X-GEMINI-PAYLOAD'' req =
       Some (base64_EncodeToString
              (Marshal_OrderPlaceReq
                \<lparr>Request = ''/v1/order/new'', Nonce = GeminiAPI.Nonce ga, Symbol = ticker,
                 Amount = Sprintf_f 6 amount,
                 Price = Sprintf_f (if ticker = ''ethbtc'' then 5 else 2) price,
                 Side = direction, Type = ''exchange limit'', ClientId = client_id\<rparr>))
     \<and> decimal_places 6 (Sprintf_f 6 amount)
     \<and> decimal_places (if ticker = ''ethbtc'' then 5 else 2)
           (Sprintf_f (if ticker = ''ethbtc'' then 5 else 2) price)"
  using assms
  by (simp add: PlaceLimitOrder_sent AuthAPIReq_sent Header_Get_def Sprintf_f_places
      split: option.splits)

text \<open>
  C6, amended, at the spec's examples: 0.1 of \<open>btcusd\<close> at 10123.5, and 0.1 of
  \<open>ethbtc\<close> at 0.03125.
\<close>

theorem PlaceLimitOrder_decimal_places_witness:
  "\<not> IsNaN float_0_1 \<and> \<not> IsInf float_0_1 \<and> \<not> IsNaN float_10123_5 \<and> \<not> IsInf float_10123_5
   \<and> \<not> IsNaN float_0_03125 \<and> \<not> IsInf float_0_03125
   \<and> sent (PlaceLimitOrder (world_answering ''[]'' []) example_ga ''buy'' ''btcusd'' ''c1''
          float_0_1 float_10123_5) \<noteq> []
   \<and> Header_Get ''X-GEMINI-PAYLOAD''
        (hd (sent (PlaceLimitOrder (world_answering ''[]'' []) example_ga ''buy'' ''btcusd'' ''c1''
               float_0_1 float_10123_5)))
       = Some (base64_EncodeToString
           ''{\"request\":\"/v1/order/new\",\"nonce\":42,\"symbol\":\"btcusd\",\"amount\":\"0.100000\",\"price\":\"10123.50\",\"side\":\"buy\",\"type\":\"exchange limit\",\"client_order_id\":\"c1\"}'')
   \<and> decimal_places 6 ''0.100000'' \<and> decimal_places 2 ''10123.50''
   \<and> sent (PlaceLimitOrder (world_answering ''[]'' []) example_ga ''buy'' ''ethbtc'' ''c1''
          float_0_1 float_0_03125) \<noteq> []
   \<and> Header_Get ''X-GEMINI-PAYLOAD''
        (hd (sent (PlaceLimitOrder (world_answering ''[]'' []) example_ga ''buy'' ''ethbtc'' ''c1''
               float_0_1 float_0_03125)))
       = Some (base64_EncodeToString
           ''{\"request\":\"/v1/order/new\",\"nonce\":42,\"symbol\":\"ethbtc\",\"amount\":\"0.100000\",\"price\":\"0.03125\",\"side\":\"buy\",\"type\":\"exchange limit\",\"client_order_id\":\"c1\"}'')
   \<and> decimal_places 5 ''0.03125''"
proof -
  let ?w = "world_answering ''[]'' []"
  let ?usd = "PlaceLimitOrder ?w example_ga ''buy'' ''btcusd'' ''c1'' float_0_1 float_10123_5"
  let ?btc = "PlaceLimitOrder ?w example_ga ''buy'' ''ethbtc'' ''c1'' float_0_1 float_0_03125"
  have n: "GeminiAPI.Nonce example_ga = 42"
    by (simp add: example_ga_def)
  have s1: "sent ?usd \<noteq> []" and s2: "sent ?btc \<noteq> []"
    by (simp_all add: PlaceLimitOrder_sent_example)
  then have m1: "hd (sent ?usd) \<in> set (sent ?usd)" and m2: "hd (sent ?btc) \<in> set (sent ?btc)"
    by simp_all
  have usd: "Header_Get ''X-GEMINI-PAYLOAD'' (hd (sent ?usd)) =
       Some (base64_EncodeToString
          (Marshal_OrderPlaceReq
            \<lparr>Request = ''/v1/order/new'', Nonce = 42, Symbol = ''btcusd'',
             Amount = ''0.100000'', Price = ''10123.50'', Side = ''buy'',
             Type = ''exchange limit'', ClientId = ''c1''\<rparr>))"
    using PlaceLimitOrder_decimal_places
        [of float_0_1 float_10123_5 ?w example_ga "''buy''" "''btcusd''" "''c1''"]
      finite_examples m1
    by (simp add: n Sprintf_f_6_0_1 Sprintf_f_2_10123_5)
  have btc: "Header_Get ''X-GEMINI-PAYLOAD'' (hd (sent ?btc)) =
       Some (base64_EncodeToString
          (Marshal_OrderPlaceReq
            \<lparr>Request = ''/v1/order/new'', Nonce = 42, Symbol = ''ethbtc'',
             Amount = ''0.100000'', Price = ''0.03125'', Side = ''buy'',
             Type = ''exchange limit'', ClientId = ''c1''\<rparr>))
       \<and> decimal_places 6 (Sprintf_f 6 float_0_1)
       \<and> decimal_places 5 (Sprintf_f 5 float_0_03125)"
    using PlaceLimitOrder_decimal_places
        [of float_0_1 float_0_03125 ?w example_ga "''buy''" "''ethbtc''" "''c1''"]
      finite_examples m2
    by (simp add: n Sprintf_f_6_0_1 Sprintf_f_5_0_03125)
  show ?thesis
    using usd btc s1 s2 finite_examples decimal_places_examples
    unfolding Marshal_order_btcusd Marshal_order_ethbtc
    by (simp only: simp_thms)
qed

text \<open>
  C6, as stated, fails: an amount that is not a number is printed as \<open>NaN\<close>, which has
  no digit after a point.
\<close>

theorem PlaceLimitOrder_NaN_counterexample:
  "sent (PlaceLimitOrder (world_answering ''[]'' []) example_ga ''buy'' ''btcusd'' ''c1''
          float_NaN float_10123_5) \<noteq> []
   \<and> Header_Get ''X-GEMINI-PAYLOAD''
        (hd (sent (PlaceLimitOrder (world_answering ''[]'' []) example_ga ''buy'' ''btcusd'' ''c1''
               float_NaN float_10123_5)))
       = Some (base64_EncodeToString
           ''{\"request\":\"/v1/order/new\",\"nonce\":42,\"symbol\":\"btcusd\",\"amount\":\"NaN\",\"price\":\"10123.50\",\"side\":\"buy\",\"type\":\"exchange limit\",\"client_order_id\":\"c1\"}'')
   \<and> \<not> decimal_places 6 ''NaN''"
proof -
  let ?w = "world_answering ''[]'' []"
  have "sent (PlaceLimitOrder ?w example_ga ''buy'' ''btcusd'' ''c1'' float_NaN float_10123_5) =
      [\<lparr>Method = ''POST'', URL = ''https://api.gemini.com/v1/order/new'',
        Header =
          [(''X-GEMINI-APIKEY'', ''key''),
           (''X-GEMINI-PAYLOAD'',
            base64_EncodeToString
              (Marshal_OrderPlaceReq
                \<lparr>Request = ''/v1/order/new'', Nonce = 42, Symbol = ''btcusd'', Amount = ''NaN'',
                 Price = ''10123.50'', Side = ''buy'', Type = ''exchange limit'',
                 ClientId = ''c1''\<rparr>)),
           (''X-GEMINI-SIGNATURE'',
            hex_EncodeToString
              (hmac_Sum384 ''secret''
                 (base64_EncodeToString
                    (Marshal_OrderPlaceReq
                      \<lparr>Request = ''/v1/order/new'', Nonce = 42, Symbol = ''btcusd'',
                       Amount = ''NaN'', Price = ''10123.50'', Side = ''buy'',
                       Type = ''exchange limit'', ClientId = ''c1''\<rparr>))))],
        Body = None\<rparr>]"
    by (simp add: PlaceLimitOrder_sent AuthAPIReq_sent world_answering_def example_ga_def
        Sprintf_f_6_NaN Sprintf_f_2_10123_5)
  then show ?thesis
    unfolding Marshal_order_NaN
    by (simp add: Header_Get_def decimal_places_examples del: base64_EncodeToString.simps)
qed

text \<open>
  C10, amended. Whatever its arguments, the JSON that \<open>PlaceLimitOrder\<close> sends has
  \<open>exchange limit\<close> as its type: the text is the one below, with the nonce, the ticker,
  the two formatted numbers, the direction and the client's id filled in.
\<close>

theorem PlaceLimitOrder_type_exchange_limit:
  "\<forall>req \<in> set (sent (PlaceLimitOrder w ga direction ticker client_id amount price)).
     Header_Get ''X-GEMINI-PAYLOAD'' req =
       Some (base64_EncodeToString
         (''{\"request\":\"/v1/order/new\",\"nonce\":'' @ FormatInt (GeminiAPI.Nonce ga)
          @ '',\"symbol\":'' @ json_string ticker
          @ '',\"amount\":'' @ json_string (Sprintf_f 6 amount)
          @ '',\"price\":'' @ json_string (Sprintf_f (if ticker = ''ethbtc'' then 5 else 2) price)
          @ '',\"side\":'' @ json_string direction
          @ '',\"type\":\"exchange limit\",\"client_order_id\":'' @ json_string client_id
          @ ''}''))"
  by (simp add: PlaceLimitOrder_sent AuthAPIReq_sent Header_Get_def Marshal_OrderPlaceReq_def
      json_string_route json_string_type split: option.splits
      del: base64_EncodeToString.simps)

text \<open>C10, amended, at an order of 0.1 \<open>btcusd\<close> at 10123.5.\<close>

theorem PlaceLimitOrder_type_exchange_limit_witness:
  "sent (PlaceLimitOrder (world_answering ''[]'' []) example_ga ''buy'' ''btcusd'' ''c1''
          float_0_1 float_10123_5) \<noteq> []
   \<and> Header_Get ''X-GEMINI-PAYLOAD''
        (hd (sent (PlaceLimitOrder (world_answering ''[]'' []) example_ga ''buy'' ''btcusd'' ''c1''
               float_0_1 float_10123_5)))
       = Some (base64_EncodeToString
           (''{\"request\":\"/v1/order/new\",\"nonce\":'' @ FormatInt 42
            @ '',\"symbol\":'' @ json_string ''btcusd''
            @ '',\"amount\":'' @ json_string ''0.100000''
            @ '',\"price\":'' @ json_string ''10123.50''
            @ '',\"side\":'' @ json_string ''buy''
            @ '',\"type\":\"exchange limit\",\"client_order_id\":'' @ json_string ''c1''
            @ ''}''))"
proof -
  let ?p = "PlaceLimitOrder (world_answering ''[]'' []) example_ga ''buy'' ''btcusd'' ''c1''
          float_0_1 float_10123_5"
  have s: "sent ?p \<noteq> []"
    by (simp add: PlaceLimitOrder_sent_example)
  then have "hd (sent ?p) \<in> set (sent ?p)"
    by simp
  then show ?thesis
    using PlaceLimitOrder_type_exchange_limit
        [of "world_answering ''[]'' []" example_ga "''buy''" "''btcusd''" "''c1''"
            float_0_1 float_10123_5] s
    by (simp add: example_ga_def Sprintf_f_6_0_1 Sprintf_f_2_10123_5
        del: base64_EncodeToString.simps)
qed

text \<open>
  C10, as stated, fails: \<open>AuthAPIReq\<close> and \<open>OrderPlaceReq\<close> are exported, and an order
  of the type \<open>exchange stop limit\<close> given to \<open>AuthAPIReq\<close> is sent as it is.
\<close>

theorem AuthAPIReq_other_order_type_counterexample:
  "sent (AuthAPIReq (world_answering ''[]'' []) example_ga stop_limit_order) \<noteq> []
   \<and> Header_Get ''X-GEMINI-PAYLOAD''
        (hd (sent (AuthAPIReq (world_answering ''[]'' []) example_ga stop_limit_order)))
       = Some (base64_EncodeToString
           ''{\"request\":\"/v1/order/new\",\"nonce\":42,\"symbol\":\"btcusd\",\"amount\":\"0.100000\",\"price\":\"10123.50\",\"side\":\"buy\",\"type\":\"exchange stop limit\",\"client_order_id\":\"c1\"}'')"
  unfolding sent_example Marshal_order_stop_limit
  by (simp add: Header_Get_def del: base64_EncodeToString.simps)

section \<open>The encodings are injective\<close>


























section \<open>Keys that HMAC does not tell apart\<close>



section \<open>Signatures have a fixed length\<close>






section \<open>What the signature depends on\<close>






end
